theory Spec2Isabelle
  imports Main "HOL-Library.AList" "HOL-Library.Sublist"
begin

section \<open>Strings\<close>

text \<open>
  Python strings are modelled as \<^typ>\<open>string\<close>, restricted to ASCII text (a character
  beyond ASCII is the sequence of its UTF-8 bytes, none of which is a letter or white
  space here).
\<close>

definition is_space :: "char \<Rightarrow> bool" where
  \<comment> \<open>the ASCII characters for which \<^verbatim>\<open>str.isspace\<close> holds\<close>
  "is_space c \<longleftrightarrow> c \<in> set [CHR 0x09, CHR 0x0A, CHR 0x0B, CHR 0x0C, CHR 0x0D,
                              CHR 0x1C, CHR 0x1D, CHR 0x1E, CHR 0x1F, CHR 0x20]"

definition strip :: "string \<Rightarrow> string" where
  \<comment> \<open>\<^verbatim>\<open>s.strip()\<close>\<close>
  "strip s = rev (dropWhile is_space (rev (dropWhile is_space s)))"

definition lower_char :: "char \<Rightarrow> char" where
  "lower_char c =
     (let n = (of_char c :: nat) in if 65 \<le> n \<and> n \<le> 90 then char_of (n + 32) else c)"

definition lower :: "string \<Rightarrow> string" where
  \<comment> \<open>\<^verbatim>\<open>s.lower()\<close>\<close>
  "lower s = map lower_char s"

definition startswith :: "string \<Rightarrow> string \<Rightarrow> bool" where
  \<comment> \<open>\<^verbatim>\<open>s.startswith(p)\<close>\<close>
  "startswith s p \<longleftrightarrow> take (length p) s = p"

definition endswith :: "string \<Rightarrow> string \<Rightarrow> bool" where
  \<comment> \<open>\<^verbatim>\<open>s.endswith(p)\<close>\<close>
  "endswith s p \<longleftrightarrow> length p \<le> length s \<and> drop (length s - length p) s = p"

fun py_split :: "char \<Rightarrow> string \<Rightarrow> string list" where
  \<comment> \<open>\<^verbatim>\<open>s.split(c)\<close> for a one-character separator: the fields between the separators,
      never the empty list\<close>
  "py_split c [] = [[]]"
| "py_split c (x # xs) =
     (if x = c then [] # py_split c xs
      else (case py_split c xs of [] \<Rightarrow> [[x]] | y # ys \<Rightarrow> (x # y) # ys))"

definition join_with :: "string \<Rightarrow> string list \<Rightarrow> string" where
  \<comment> \<open>\<^verbatim>\<open>sep.join(xs)\<close>\<close>
  "join_with sep xs = (case xs of [] \<Rightarrow> [] | y # ys \<Rightarrow> y @ concat (map (\<lambda>z. sep @ z) ys))"

section \<open>Paths (pathlib and os.path, POSIX flavour)\<close>

definition path_root :: "string \<Rightarrow> string" where
  \<comment> \<open>the root of a \<^verbatim>\<open>PurePosixPath\<close>: exactly two leading slashes are kept\<close>
  "path_root s =
     (if \<not> startswith s ''/'' then ''''
      else if startswith s ''//'' \<and> \<not> startswith s ''///'' then ''//''
      else ''/'')"

definition path_tail :: "string \<Rightarrow> string list" where
  \<comment> \<open>the components after the root: empty ones and \<^verbatim>\<open>.\<close> are dropped\<close>
  "path_tail s = filter (\<lambda>x. x \<noteq> '''' \<and> x \<noteq> ''.'') (py_split CHR ''/'' s)"

definition path_parts :: "string \<Rightarrow> string list" where
  \<comment> \<open>\<^verbatim>\<open>Path(s).parts\<close>\<close>
  "path_parts s = (if path_root s = '''' then [] else [path_root s]) @ path_tail s"

definition path_name :: "string \<Rightarrow> string" where
  \<comment> \<open>\<^verbatim>\<open>Path(s).name\<close>: the last component, empty when there is none\<close>
  "path_name s = (if path_tail s = [] then '''' else last (path_tail s))"

section \<open>The backup engine: exclusion patterns\<close>

definition exclude_defaults :: "string list" where
  "exclude_defaults =
     [''.git'', ''__pycache__'', ''node_modules'', ''.vs'', ''.vscode'', ''bin'', ''obj'']"

definition parse_exclude_patterns :: "string \<Rightarrow> string list" where
  \<comment> \<open>\<^verbatim>\<open>list(set(...))\<close> leaves the order of the result open; \<^const>\<open>remdups\<close> picks one\<close>
  "parse_exclude_patterns exclude_string =
     (if exclude_string = '''' then exclude_defaults
      else
        let patterns = map strip (filter (\<lambda>p. strip p \<noteq> '''') (py_split CHR '','' exclude_string))
        in remdups (patterns @ exclude_defaults))"

fun should_exclude :: "string \<Rightarrow> string list \<Rightarrow> bool" where
  "should_exclude path [] = False"
| "should_exclude path (pattern # rest) =
     (if pattern \<in> set (path_parts path) \<or> path_name path = pattern then True
      else if startswith pattern ''*'' \<and> endswith (path_name path) (drop 1 pattern) then True
      else should_exclude path rest)"

section \<open>The host and its file system\<close>

text \<open>
  The host is a POSIX system: \<^verbatim>\<open>platform.system().lower()\<close> and the working directory
  are its two parameters. Its file system is a tree of regular files (content, and whether
  the process may open the file) and directories (whether the process may add and remove
  entries, and the entries in listing order). There are no symbolic links, so a path is
  interpreted lexically.
\<close>

datatype exn =
    Exception string
  | ValueError
  | FileNotFoundError
  | FileExistsError
  | NotADirectoryError
  | IsADirectoryError
  | PermissionError

datatype node =
    File string bool
  | Dir bool "(string \<times> node) list"

record host =
  system :: string
  cwd :: string

definition norm_step :: "string list \<Rightarrow> string \<Rightarrow> string list" where
  "norm_step st c =
     (if c = '''' \<or> c = ''.'' then st else if c = ''..'' then butlast st else st @ [c])"

definition abs_key :: "host \<Rightarrow> string \<Rightarrow> string list" where
  \<comment> \<open>the components of the absolute, normalised path, below the root\<close>
  "abs_key h p =
     foldl norm_step [] (py_split CHR ''/'' (if startswith p ''/'' then p else cwd h @ ''/'' @ p))"

definition os_path :: "host \<Rightarrow> string \<Rightarrow> exn + string list" where
  \<comment> \<open>how a system call reads a path: the empty path names nothing, a NUL is refused\<close>
  "os_path h p =
     (if p = '''' then Inl FileNotFoundError
      else if CHR 0x00 \<in> set p then Inl ValueError
      else Inr (abs_key h p))"

fun lookup :: "node \<Rightarrow> string list \<Rightarrow> node option" where
  "lookup n [] = Some n"
| "lookup (File c a) (x # xs) = None"
| "lookup (Dir w es) (x # xs) = (case map_of es x of None \<Rightarrow> None | Some n \<Rightarrow> lookup n xs)"

fun is_dir :: "node option \<Rightarrow> bool" where
  "is_dir (Some (Dir w es)) = True"
| "is_dir _ = False"

fun is_file :: "node option \<Rightarrow> bool" where
  "is_file (Some (File c a)) = True"
| "is_file _ = False"

fun mkdirs :: "node \<Rightarrow> string list \<Rightarrow> exn option \<times> node" where
  \<comment> \<open>\<^verbatim>\<open>os.makedirs(p, exist_ok=True)\<close> and \<^verbatim>\<open>Path(p).mkdir(parents=True, exist_ok=True)\<close>:
      the directories made before a failure stay\<close>
  "mkdirs (Dir w es) [] = (None, Dir w es)"
| "mkdirs (File c a) [] = (Some FileExistsError, File c a)"
| "mkdirs (File c a) (x # xs) = (Some NotADirectoryError, File c a)"
| "mkdirs (Dir w es) (x # xs) =
     (case map_of es x of
        Some n \<Rightarrow> (case mkdirs n xs of (e, n') \<Rightarrow> (e, Dir w (AList.update x n' es)))
      | None \<Rightarrow>
          if \<not> w then (Some PermissionError, Dir w es)
          else (case mkdirs (Dir True []) xs of (e, n') \<Rightarrow> (e, Dir w (AList.update x n' es))))"

fun write_file :: "node \<Rightarrow> string list \<Rightarrow> string \<Rightarrow> exn + node" where
  \<comment> \<open>open for writing, truncate, write\<close>
  "write_file (File c a) [] data = (if a then Inr (File data a) else Inl PermissionError)"
| "write_file (Dir w es) [] data = Inl IsADirectoryError"
| "write_file (File c a) (x # xs) data = Inl NotADirectoryError"
| "write_file (Dir w es) (x # xs) data =
     (case map_of es x of
        Some n \<Rightarrow>
          (case write_file n xs data of
             Inl e \<Rightarrow> Inl e
           | Inr n' \<Rightarrow> Inr (Dir w (AList.update x n' es)))
      | None \<Rightarrow>
          if xs \<noteq> [] then Inl FileNotFoundError
          else if \<not> w then Inl PermissionError
          else Inr (Dir w (AList.update x (File data True) es)))"

fun empty_dir :: "bool \<Rightarrow> (string \<times> node) list \<Rightarrow> exn option \<times> (string \<times> node) list" where
  \<comment> \<open>\<^verbatim>\<open>shutil.rmtree\<close> inside one directory: entries go in listing order, the first
      failure is raised and what is left stays\<close>
  "empty_dir w [] = (None, [])"
| "empty_dir w ((x, File c a) # es) =
     (if w then empty_dir w es else (Some PermissionError, (x, File c a) # es))"
| "empty_dir w ((x, Dir w' es') # es) =
     (case empty_dir w' es' of
        (Some e, r) \<Rightarrow> (Some e, (x, Dir w' r) # es)
      | (None, r) \<Rightarrow>
          if w then empty_dir w es else (Some PermissionError, (x, Dir w' r) # es))"

fun rmtree :: "node \<Rightarrow> string list \<Rightarrow> exn option \<times> node" where
  "rmtree n [] = (Some PermissionError, n)"
| "rmtree (File c a) (x # xs) = (Some NotADirectoryError, File c a)"
| "rmtree (Dir w es) [x] =
     (case map_of es x of
        None \<Rightarrow> (Some FileNotFoundError, Dir w es)
      | Some (File c a) \<Rightarrow> (Some NotADirectoryError, Dir w es)
      | Some (Dir w' es') \<Rightarrow>
          (case empty_dir w' es' of
             (Some e, r) \<Rightarrow> (Some e, Dir w (AList.update x (Dir w' r) es))
           | (None, r) \<Rightarrow>
               if w then (None, Dir w (AList.delete x es))
               else (Some PermissionError, Dir w (AList.update x (Dir w' r) es))))"
| "rmtree (Dir w es) (x # xs) =
     (case map_of es x of
        None \<Rightarrow> (Some FileNotFoundError, Dir w es)
      | Some n \<Rightarrow> (case rmtree n xs of (e, n') \<Rightarrow> (e, Dir w (AList.update x n' es))))"

definition os_path_exists :: "host \<Rightarrow> node \<Rightarrow> string \<Rightarrow> bool" where
  \<comment> \<open>\<^verbatim>\<open>os.path.exists(p)\<close>, \<^verbatim>\<open>Path(p).exists()\<close>: false where the path cannot be read\<close>
  "os_path_exists h fs p = (case os_path h p of Inl e \<Rightarrow> False | Inr k \<Rightarrow> lookup fs k \<noteq> None)"

definition os_path_isdir :: "host \<Rightarrow> node \<Rightarrow> string \<Rightarrow> bool" where
  "os_path_isdir h fs p = (case os_path h p of Inl e \<Rightarrow> False | Inr k \<Rightarrow> is_dir (lookup fs k))"

definition os_path_isfile :: "host \<Rightarrow> node \<Rightarrow> string \<Rightarrow> bool" where
  "os_path_isfile h fs p = (case os_path h p of Inl e \<Rightarrow> False | Inr k \<Rightarrow> is_file (lookup fs k))"

definition os_listdir :: "host \<Rightarrow> node \<Rightarrow> string \<Rightarrow> exn + string list" where
  "os_listdir h fs p =
     (case os_path h p of
        Inl e \<Rightarrow> Inl e
      | Inr k \<Rightarrow>
          (case lookup fs k of
             None \<Rightarrow> Inl FileNotFoundError
           | Some (File c a) \<Rightarrow> Inl NotADirectoryError
           | Some (Dir w es) \<Rightarrow> Inr (map fst es)))"

definition os_makedirs :: "host \<Rightarrow> node \<Rightarrow> string \<Rightarrow> exn option \<times> node" where
  "os_makedirs h fs p = (case os_path h p of Inl e \<Rightarrow> (Some e, fs) | Inr k \<Rightarrow> mkdirs fs k)"

definition shutil_rmtree :: "host \<Rightarrow> node \<Rightarrow> string \<Rightarrow> exn option \<times> node" where
  "shutil_rmtree h fs p = (case os_path h p of Inl e \<Rightarrow> (Some e, fs) | Inr k \<Rightarrow> rmtree fs k)"

definition os_path_join :: "string \<Rightarrow> string \<Rightarrow> string" where
  "os_path_join a b =
     (if startswith b ''/'' then b
      else if a = '''' \<or> endswith a ''/'' then a @ b
      else a @ ''/'' @ b)"

definition path_str :: "string \<Rightarrow> string" where
  \<comment> \<open>\<^verbatim>\<open>str(Path(s))\<close>\<close>
  "path_str s =
     (if path_root s = '''' \<and> path_tail s = [] then ''.''
      else path_root s @ join_with ''/'' (path_tail s))"

definition path_parent :: "string \<Rightarrow> string" where
  \<comment> \<open>\<^verbatim>\<open>str(Path(s).parent)\<close>: a path without components is its own parent\<close>
  "path_parent s =
     (if path_tail s = [] then path_str s
      else if path_root s = '''' \<and> butlast (path_tail s) = [] then ''.''
      else path_root s @ join_with ''/'' (butlast (path_tail s)))"

definition resolve :: "host \<Rightarrow> string \<Rightarrow> string option" where
  \<comment> \<open>\<^verbatim>\<open>str(Path(p).resolve())\<close>, which is \<^verbatim>\<open>as_posix()\<close> here; \<^const>\<open>None\<close> where it raises\<close>
  "resolve h p =
     (if CHR 0x00 \<in> set p then None else Some (''/'' @ join_with ''/'' (abs_key h p)))"

section \<open>The path validator\<close>

definition backslash :: char where
  "backslash = CHR 0x5C"

definition dangerous_paths :: "(string \<times> string list) list" where
  "dangerous_paths =
     [(''windows'',
        map (\<lambda>p. ''c:'' @ [backslash] @ p)
          [''windows'', ''program files'', ''program files (x86)'',
           ''system32'', ''syswow64'', ''boot'', ''recovery'',
           ''$recycle.bin'', ''pagefile.sys'', ''hiberfil.sys'',
           ''programdata'' @ [backslash] @ ''microsoft'', ''users'' @ [backslash] @ ''all users'',
           ''system volume information'']),
      (''linux'',
        [''/bin'', ''/sbin'', ''/usr/bin'', ''/usr/sbin'', ''/lib'', ''/lib64'',
         ''/etc'', ''/boot'', ''/sys'', ''/proc'', ''/dev'', ''/run'', ''/tmp'',
         ''/var/log'', ''/var/run'', ''/var/lib/dpkg'', ''/var/cache'',
         ''/usr/lib'', ''/usr/share'', ''/root'']),
      (''darwin'',
        [''/system'', ''/library'', ''/applications'', ''/usr/bin'', ''/usr/sbin'',
         ''/bin'', ''/sbin'', ''/etc'', ''/tmp'', ''/var'', ''/dev'', ''/private'',
         ''/volumes/macintosh hd/system''])]"

definition dangerous_list :: "host \<Rightarrow> string list" where
  \<comment> \<open>\<^verbatim>\<open>self.dangerous_paths.get(self.system, [])\<close>\<close>
  "dangerous_list h = (case map_of dangerous_paths (system h) of None \<Rightarrow> [] | Some l \<Rightarrow> l)"

definition replace_backslash :: "string \<Rightarrow> string" where
  \<comment> \<open>\<^verbatim>\<open>s.replace(backslash, '/')\<close>\<close>
  "replace_backslash s = map (\<lambda>c. if c = backslash then CHR ''/'' else c) s"

definition is_system_path :: "host \<Rightarrow> string \<Rightarrow> exn + bool" where
  "is_system_path h path =
     (if path = '''' then Inr False
      else
        (case resolve h path of
           None \<Rightarrow> Inl ValueError
         | Some path_lower \<Rightarrow>
             Inr (list_ex (\<lambda>dangerous_path.
                    startswith (lower path_lower) (lower (replace_backslash dangerous_path)))
                  (dangerous_list h))))"

definition is_root_drive :: "host \<Rightarrow> string \<Rightarrow> bool" where
  "is_root_drive h path =
     (case resolve h path of
        None \<Rightarrow> False
      | Some resolved_path \<Rightarrow>
          if system h = ''windows''
            then length resolved_path \<le> 3 \<and> endswith resolved_path ('':'' @ [backslash])
          else resolved_path = ''/'')"

definition has_sufficient_depth :: "host \<Rightarrow> string \<Rightarrow> nat \<Rightarrow> bool" where
  "has_sufficient_depth h path min_depth =
     (case resolve h path of
        None \<Rightarrow> False
      | Some resolved_path \<Rightarrow> length (path_parts resolved_path) \<ge> min_depth)"

datatype reason =
    EmptyPath
  | DangerousSystemPath
  | RootDrive
  | InsufficientDepth
  | ParentCreateFailed exn
  | TargetIsFile
  | Ok
  | ValidationFailed exn

text \<open>
  The source returns a message with each verdict; \<^typ>\<open>reason\<close> names the messages, in
  the order of the source: "Pfad darf nicht leer sein.", "Gefaehrlicher Systempfad
  erkannt! ...", "Root-Laufwerk als ...-Pfad nicht erlaubt! ...", "Backup-Pfad sollte
  mindestens 3 Verzeichnisebenen tief sein ...", "Keine Berechtigung fuer Verzeichnis: ..."
  (a \<^const>\<open>PermissionError\<close>) or "Kann Verzeichnis nicht erstellen: ..." (any other
  exception), "Pfad zeigt auf eine Datei, nicht auf ein Verzeichnis: ...", "Pfad ist
  gueltig." and, from the outer handler, "Pfad-Validierung fehlgeschlagen: ...".
\<close>

definition ensure_parent :: "host \<Rightarrow> node \<Rightarrow> string \<Rightarrow> exn option \<times> node" where
  \<comment> \<open>\<^verbatim>\<open>parent = path_obj.parent\<close>, made with its ancestors when it does not exist; the
      exception of \<^verbatim>\<open>mkdir\<close>, if any, and the file system afterwards\<close>
  "ensure_parent h fs path =
     (let parent = path_parent path
      in if \<not> os_path_exists h fs parent then os_makedirs h fs parent else (None, fs))"

definition validate_path :: "host \<Rightarrow> node \<Rightarrow> string \<Rightarrow> string \<Rightarrow> (bool \<times> reason) \<times> node" where
  \<comment> \<open>the verdict with its reason, and the file system after the call\<close>
  "validate_path h fs path0 path_type =
     (if path0 = [] \<or> strip path0 = [] then ((False, EmptyPath), fs)
      else
        let path = strip path0 in
        (case is_system_path h path of
           Inl e \<Rightarrow> ((False, ValidationFailed e), fs)
         | Inr True \<Rightarrow> ((False, DangerousSystemPath), fs)
         | Inr False \<Rightarrow>
             if is_root_drive h path then ((False, RootDrive), fs)
             else if path_type = ''backup'' \<and> \<not> has_sufficient_depth h path 3
               then ((False, InsufficientDepth), fs)
             else
               (case ensure_parent h fs path of
                  (Some e, fs') \<Rightarrow> ((False, ParentCreateFailed e), fs')
                | (None, fs') \<Rightarrow>
                    if os_path_exists h fs' path \<and> os_path_isfile h fs' path
                      then ((False, TargetIsFile), fs')
                    else ((True, Ok), fs'))))"

subsection \<open>A Linux host for the examples\<close>

definition linux_host :: host where
  "linux_host = \<lparr>system = ''linux'', cwd = ''/home/user''\<rparr>"

definition linux_fs :: node where
  "linux_fs =
     Dir False
       [(''etc'', Dir False [(''passwd'', File ''root:x:0:0'' True)]),
        (''home'', Dir False [(''user'', Dir True [(''notes.txt'', File ''hello'' True)])]),
        (''tmp'', Dir True [(''work'', Dir True [])])]"

definition tmp_host :: host where
  \<comment> \<open>the same host, started from a directory under \<^verbatim>\<open>/tmp\<close>\<close>
  "tmp_host = \<lparr>system = ''linux'', cwd = ''/tmp/work''\<rparr>"

section \<open>Properties of the exclusion patterns\<close>

lemmas path_defs =
  startswith_def endswith_def path_name_def path_tail_def path_parts_def path_root_def

lemma should_exclude_iff:
  "should_exclude path pats \<longleftrightarrow>
     (\<exists>p \<in> set pats. p \<in> set (path_parts path) \<or> path_name path = p \<or>
        (startswith p ''*'' \<and> endswith (path_name path) (drop 1 p)))"
  by (induction pats) auto

lemma distinct_exclude_defaults: "distinct exclude_defaults"
  by (simp add: exclude_defaults_def)

lemma set_parse_exclude_patterns:
  "set (parse_exclude_patterns s) =
     set (filter (\<lambda>p. p \<noteq> '''') (map strip (py_split CHR '','' s))) \<union> set exclude_defaults"
proof (cases "s = ''''")
  case True
  then show ?thesis by (simp add: parse_exclude_patterns_def strip_def)
next
  case False
  then show ?thesis by (auto simp: parse_exclude_patterns_def Let_def)
qed

lemma distinct_parse_exclude_patterns: "distinct (parse_exclude_patterns s)"
  by (simp add: parse_exclude_patterns_def Let_def distinct_exclude_defaults)

text \<open>
  Claim C8. For every raw exclusion string, \<^const>\<open>parse_exclude_patterns\<close> yields the
  entries between the commas, trimmed, without the empty ones, together with the default
  patterns, and no pattern twice. The empty string yields the default list itself,
  \<^verbatim>\<open>"foo, bar"\<close> yields \<^verbatim>\<open>foo\<close> and \<^verbatim>\<open>bar\<close> with the defaults, and every result
  contains the defaults.
\<close>

theorem parse_exclude_patterns_spec:
  "set (parse_exclude_patterns s) =
     set (filter (\<lambda>p. p \<noteq> '''') (map strip (py_split CHR '','' s))) \<union> set exclude_defaults
   \<and> distinct (parse_exclude_patterns s)
   \<and> parse_exclude_patterns '''' = exclude_defaults
   \<and> set (parse_exclude_patterns ''foo, bar'') = {''foo'', ''bar''} \<union> set exclude_defaults
   \<and> set exclude_defaults \<subseteq> set (parse_exclude_patterns s)"
proof (intro conjI)
  show "set (parse_exclude_patterns s) =
     set (filter (\<lambda>p. p \<noteq> []) (map strip (py_split CHR '','' s))) \<union> set exclude_defaults"
    by (rule set_parse_exclude_patterns)
  show "distinct (parse_exclude_patterns s)"
    by (rule distinct_parse_exclude_patterns)
  show "parse_exclude_patterns [] = exclude_defaults"
    by (simp add: parse_exclude_patterns_def)
  show "set (parse_exclude_patterns ''foo, bar'') = {''foo'', ''bar''} \<union> set exclude_defaults"
    by (auto simp: parse_exclude_patterns_def strip_def is_space_def exclude_defaults_def)
  show "set exclude_defaults \<subseteq> set (parse_exclude_patterns s)"
    by (simp add: set_parse_exclude_patterns)
qed

theorem parse_exclude_patterns_spec_witness:
  "set (parse_exclude_patterns '' *.log ,, obj,tmp '') =
     {''*.log'', ''tmp''} \<union> set exclude_defaults
   \<and> distinct (parse_exclude_patterns '' *.log ,, obj,tmp '')
   \<and> set exclude_defaults \<subseteq> set (parse_exclude_patterns '' *.log ,, obj,tmp '')"
proof -
  have e: "filter (\<lambda>p. p \<noteq> '''') (map strip (py_split CHR '','' '' *.log ,, obj,tmp ''))
             = [''*.log'', ''obj'', ''tmp'']"
    by (simp add: strip_def is_space_def)
  have o: "''obj'' \<in> set exclude_defaults"
    by (simp add: exclude_defaults_def)
  note spec = parse_exclude_patterns_spec [of "'' *.log ,, obj,tmp ''"]
  from spec have "set (parse_exclude_patterns '' *.log ,, obj,tmp '') =
     set [''*.log'', ''obj'', ''tmp''] \<union> set exclude_defaults"
    unfolding e by (rule conjunct1)
  with o have "set (parse_exclude_patterns '' *.log ,, obj,tmp '') =
     {''*.log'', ''tmp''} \<union> set exclude_defaults"
    by auto
  moreover from spec have "distinct (parse_exclude_patterns '' *.log ,, obj,tmp '')"
    by blast
  moreover from spec
  have "set exclude_defaults \<subseteq> set (parse_exclude_patterns '' *.log ,, obj,tmp '')"
    by blast
  ultimately show ?thesis by blast
qed

text \<open>
  Claim C7. \<^const>\<open>should_exclude\<close> holds exactly when, for some pattern, a component of
  the path is the pattern, or the name of the path is the pattern, or the pattern starts
  with \<^verbatim>\<open>*\<close> and the name ends with the rest of the pattern. So \<^verbatim>\<open>build.log\<close> is
  excluded by \<^verbatim>\<open>*.log\<close> and \<^verbatim>\<open>build.txt\<close> is not, and a path with a component that is
  a default pattern, at whatever depth, is excluded under every parsed pattern list.
\<close>

theorem should_exclude_spec:
  "(should_exclude path pats \<longleftrightarrow>
     (\<exists>p \<in> set pats. p \<in> set (path_parts path) \<or> path_name path = p \<or>
        (startswith p ''*'' \<and> endswith (path_name path) (drop 1 p))))
   \<and> should_exclude ''build.log'' [''*.log'']
   \<and> \<not> should_exclude ''build.txt'' [''*.log'']
   \<and> (\<forall>d s. d \<in> set exclude_defaults \<and> d \<in> set (path_parts path)
          \<longrightarrow> should_exclude path (parse_exclude_patterns s))"
proof -
  have "should_exclude ''build.log'' [''*.log'']"
    by (simp add: path_defs)
  moreover have "\<not> should_exclude ''build.txt'' [''*.log'']"
    by (simp add: path_defs)
  moreover have "should_exclude path (parse_exclude_patterns s)"
    if "d \<in> set exclude_defaults" "d \<in> set (path_parts path)" for d s
    using that set_parse_exclude_patterns [of s] by (auto simp: should_exclude_iff)
  ultimately show ?thesis
    using should_exclude_iff by blast
qed

theorem should_exclude_spec_witness:
  "''.git'' \<in> set exclude_defaults
   \<and> ''.git'' \<in> set (path_parts ''/home/u/proj/.git/objects/ab/cd'')
   \<and> should_exclude ''/home/u/proj/.git/objects/ab/cd'' (parse_exclude_patterns ''*.log'')
   \<and> should_exclude ''/home/u/proj/.git/objects/ab/cd'' [''.git'']"
proof -
  have a: "''.git'' \<in> set exclude_defaults" by (simp add: exclude_defaults_def)
  have b: "''.git'' \<in> set (path_parts ''/home/u/proj/.git/objects/ab/cd'')"
    by (simp add: path_defs)
  from should_exclude_spec [of "''/home/u/proj/.git/objects/ab/cd''" "[''.git'']"] a b
  show ?thesis by auto
qed

section \<open>Properties of the path validator\<close>

lemma is_system_path_cases:
  "is_system_path h p = Inr True \<longleftrightarrow>
     p \<noteq> [] \<and> (\<exists>r. resolve h p = Some r \<and>
       (\<exists>d \<in> set (dangerous_list h). startswith (lower r) (lower (replace_backslash d))))"
  by (auto simp: is_system_path_def list_ex_iff split: option.splits)

lemma strip_nonempty: "strip path \<noteq> [] \<Longrightarrow> path \<noteq> []"
  by (auto simp: strip_def)

lemma validate_dangerous_iff:
  assumes "strip path \<noteq> []"
  shows "fst (validate_path h fs path t) = (False, DangerousSystemPath) \<longleftrightarrow>
           is_system_path h (strip path) = Inr True"
  using assms strip_nonempty [OF assms]
  by (auto simp: validate_path_def Let_def split: sum.splits bool.splits prod.splits option.splits)

lemma resolve_abs_etc_foo: "resolve h ''/etc/foo'' = Some ''/etc/foo''"
  by (simp add: resolve_def abs_key_def startswith_def norm_step_def join_with_def)

lemma dangerous_list_linux: "system h = ''linux'' \<Longrightarrow> ''/etc'' \<in> set (dangerous_list h)"
  by (simp add: dangerous_list_def dangerous_paths_def)

lemma strip_etc_foo: "strip ''/etc/foo'' = ''/etc/foo''"
  by (simp add: strip_def is_space_def)

lemma etc_foo_dangerous:
  assumes "system h = ''linux''"
  shows "fst (validate_path h fs ''/etc/foo'' ''backup'') = (False, DangerousSystemPath)"
proof -
  have "startswith (lower ''/etc/foo'') (lower (replace_backslash ''/etc''))"
    by (simp add: startswith_def lower_def lower_char_def replace_backslash_def backslash_def)
  with dangerous_list_linux [OF assms] have "is_system_path h ''/etc/foo'' = Inr True"
    unfolding is_system_path_cases resolve_abs_etc_foo by blast
  then show ?thesis
    using validate_dangerous_iff [of "''/etc/foo''" h fs "''backup''"] by (simp add: strip_etc_foo)
qed

text \<open>
  Claim C2, as stated, fails on a blank path. The path of one space is not empty; on a
  Linux host started from \<^verbatim>\<open>/tmp/work\<close> it resolves to \<^verbatim>\<open>/tmp/work/ \<close> (and, trimmed,
  to \<^verbatim>\<open>/tmp/work\<close>), which starts with the denylist entry \<^verbatim>\<open>/tmp\<close>; yet the verdict is
  \<^const>\<open>EmptyPath\<close>, since the test for an empty or blank path comes first.
\<close>

theorem validate_path_blank_counterexample:
  "'' '' \<noteq> ''''
   \<and> fst (validate_path tmp_host linux_fs '' '' ''backup'') = (False, EmptyPath)
   \<and> resolve tmp_host '' '' = Some ''/tmp/work/ ''
   \<and> resolve tmp_host (strip '' '') = Some ''/tmp/work''
   \<and> ''/tmp'' \<in> set (dangerous_list tmp_host)
   \<and> startswith (lower ''/tmp/work/ '') (lower (replace_backslash ''/tmp''))
   \<and> startswith (lower ''/tmp/work'') (lower (replace_backslash ''/tmp''))"
  by (simp add: validate_path_def strip_def is_space_def tmp_host_def resolve_def abs_key_def
      startswith_def norm_step_def join_with_def dangerous_list_def dangerous_paths_def
      lower_def lower_char_def replace_backslash_def backslash_def)

text \<open>
  Claim C2, amended. For every path that is neither empty nor blank, the verdict is
  \<^const>\<open>DangerousSystemPath\<close> exactly when the trimmed path resolves and its resolved
  form, in lower case, starts with an entry of the host's denylist (separators and case
  normalised); on a Linux host \<^verbatim>\<open>/etc/foo\<close> is refused so.
\<close>

theorem validate_path_dangerous:
  "(strip path \<noteq> [] \<longrightarrow>
      (fst (validate_path h fs path path_type) = (False, DangerousSystemPath) \<longleftrightarrow>
         (\<exists>r. resolve h (strip path) = Some r \<and>
            (\<exists>d \<in> set (dangerous_list h).
               startswith (lower r) (lower (replace_backslash d))))))
   \<and> (system h = ''linux'' \<longrightarrow>
        fst (validate_path h fs ''/etc/foo'' ''backup'') = (False, DangerousSystemPath))"
  using validate_dangerous_iff [of path h fs path_type] is_system_path_cases [of h "strip path"]
    etc_foo_dangerous [of h fs]
  by blast

theorem validate_path_dangerous_witness:
  "strip ''/usr/share/x'' \<noteq> [] \<and> system linux_host = ''linux''
   \<and> fst (validate_path linux_host linux_fs ''/usr/share/x'' ''runtime'') = (False, DangerousSystemPath)
   \<and> fst (validate_path linux_host linux_fs ''/etc/foo'' ''backup'') = (False, DangerousSystemPath)"
proof -
  have a: "strip ''/usr/share/x'' \<noteq> []" by (simp add: strip_def is_space_def)
  have b: "system linux_host = ''linux''" by (simp add: linux_host_def)
  have c: "strip ''/usr/share/x'' = ''/usr/share/x''" by (simp add: strip_def is_space_def)
  have d: "resolve linux_host ''/usr/share/x'' = Some ''/usr/share/x''"
    by (simp add: resolve_def abs_key_def startswith_def norm_step_def join_with_def)
  have e: "''/usr/share'' \<in> set (dangerous_list linux_host)"
    by (simp add: dangerous_list_def dangerous_paths_def linux_host_def)
  have f: "startswith (lower ''/usr/share/x'') (lower (replace_backslash ''/usr/share''))"
    by (simp add: startswith_def lower_def lower_char_def replace_backslash_def backslash_def)
  from validate_path_dangerous [of "''/usr/share/x''" linux_host linux_fs "''runtime''"] a b c d e f
  show ?thesis by auto
qed
lemma validate_empty:
  "path = [] \<or> strip path = [] \<Longrightarrow> validate_path h fs path t = ((False, EmptyPath), fs)"
  by (simp add: validate_path_def)

lemma validate_nonblank:
  assumes "strip path \<noteq> []"
  shows "validate_path h fs path t =
     (case is_system_path h (strip path) of
        Inl e \<Rightarrow> ((False, ValidationFailed e), fs)
      | Inr True \<Rightarrow> ((False, DangerousSystemPath), fs)
      | Inr False \<Rightarrow>
          if is_root_drive h (strip path) then ((False, RootDrive), fs)
          else if t = ''backup'' \<and> \<not> has_sufficient_depth h (strip path) 3
            then ((False, InsufficientDepth), fs)
          else
            (case ensure_parent h fs (strip path) of
               (Some e, fs') \<Rightarrow> ((False, ParentCreateFailed e), fs')
             | (None, fs') \<Rightarrow>
                 if os_path_exists h fs' (strip path) \<and> os_path_isfile h fs' (strip path)
                   then ((False, TargetIsFile), fs')
                 else ((True, Ok), fs')))"
  using assms strip_nonempty [OF assms] by (simp add: validate_path_def Let_def)

lemma resolve_root: "resolve h ''/'' = Some ''/''"
  by (simp add: resolve_def abs_key_def startswith_def norm_step_def join_with_def)

lemma strip_root: "strip ''/'' = ''/''"
  by (simp add: strip_def is_space_def)

lemma root_not_system: "is_system_path h ''/'' = Inr False"
proof -
  have "\<not> startswith ''/'' (lower (replace_backslash d))" if "d \<in> set (dangerous_list h)" for d
  proof -
    from that have "length d > 1"
      by (auto simp: dangerous_list_def dangerous_paths_def split: option.splits if_splits)
    then show ?thesis
      by (auto simp: startswith_def lower_def replace_backslash_def)
  qed
  then show ?thesis
    by (auto simp: is_system_path_def resolve_root list_ex_iff lower_def lower_char_def)
qed

lemma validate_root:
  assumes "system h \<noteq> ''windows''"
  shows "validate_path h fs ''/'' t = ((False, RootDrive), fs)"
  using assms
  by (simp add: validate_nonblank strip_root root_not_system is_root_drive_def resolve_root)
text \<open>
  Claim C3. \<^const>\<open>validate_path\<close> makes its checks in a fixed order and stops at the
  first that fails: an empty or blank path gives \<^const>\<open>EmptyPath\<close>; otherwise a path
  on the denylist gives \<^const>\<open>DangerousSystemPath\<close>; otherwise a root gives
  \<^const>\<open>RootDrive\<close>; otherwise, for the backup role, too few components give
  \<^const>\<open>InsufficientDepth\<close>; otherwise a parent directory that cannot be made gives
  \<^const>\<open>ParentCreateFailed\<close>; otherwise a regular file at the path gives
  \<^const>\<open>TargetIsFile\<close>; otherwise the verdict is \<^const>\<open>Ok\<close>. The empty path is
  refused as empty, and \<^verbatim>\<open>/\<close> as a root on every host that is not Windows.
\<close>

theorem validate_path_order:
  "(path = [] \<or> strip path = [] \<longrightarrow> validate_path h fs path t = ((False, EmptyPath), fs))
   \<and> (strip path \<noteq> [] \<and> is_system_path h (strip path) = Inr True
        \<longrightarrow> validate_path h fs path t = ((False, DangerousSystemPath), fs))
   \<and> (strip path \<noteq> [] \<and> is_system_path h (strip path) = Inr False
        \<and> is_root_drive h (strip path)
        \<longrightarrow> validate_path h fs path t = ((False, RootDrive), fs))
   \<and> (strip path \<noteq> [] \<and> is_system_path h (strip path) = Inr False
        \<and> \<not> is_root_drive h (strip path)
        \<and> t = ''backup'' \<and> \<not> has_sufficient_depth h (strip path) 3
        \<longrightarrow> validate_path h fs path t = ((False, InsufficientDepth), fs))
   \<and> (strip path \<noteq> [] \<and> is_system_path h (strip path) = Inr False
        \<and> \<not> is_root_drive h (strip path)
        \<and> \<not> (t = ''backup'' \<and> \<not> has_sufficient_depth h (strip path) 3)
        \<and> ensure_parent h fs (strip path) = (Some e, fs')
        \<longrightarrow> validate_path h fs path t = ((False, ParentCreateFailed e), fs'))
   \<and> (strip path \<noteq> [] \<and> is_system_path h (strip path) = Inr False
        \<and> \<not> is_root_drive h (strip path)
        \<and> \<not> (t = ''backup'' \<and> \<not> has_sufficient_depth h (strip path) 3)
        \<and> ensure_parent h fs (strip path) = (None, fs')
        \<and> os_path_exists h fs' (strip path) \<and> os_path_isfile h fs' (strip path)
        \<longrightarrow> validate_path h fs path t = ((False, TargetIsFile), fs'))
   \<and> (strip path \<noteq> [] \<and> is_system_path h (strip path) = Inr False
        \<and> \<not> is_root_drive h (strip path)
        \<and> \<not> (t = ''backup'' \<and> \<not> has_sufficient_depth h (strip path) 3)
        \<and> ensure_parent h fs (strip path) = (None, fs')
        \<and> \<not> (os_path_exists h fs' (strip path) \<and> os_path_isfile h fs' (strip path))
        \<longrightarrow> validate_path h fs path t = ((True, Ok), fs'))
   \<and> validate_path h fs '''' ''backup'' = ((False, EmptyPath), fs)
   \<and> (system h \<noteq> ''windows'' \<longrightarrow> validate_path h fs ''/'' ''backup'' = ((False, RootDrive), fs))"
proof (intro conjI impI)
  show "validate_path h fs [] ''backup'' = ((False, EmptyPath), fs)"
    by (simp add: validate_empty)
qed (simp_all add: validate_empty validate_nonblank validate_root)

lemmas eval_defs =
  strip_def is_space_def resolve_def abs_key_def startswith_def endswith_def norm_step_def
  join_with_def dangerous_list_def dangerous_paths_def lower_def lower_char_def
  replace_backslash_def backslash_def is_system_path_def is_root_drive_def
  has_sufficient_depth_def path_parts_def path_root_def path_tail_def path_parent_def
  path_str_def ensure_parent_def os_path_exists_def os_path_isfile_def os_makedirs_def
  os_path_def linux_host_def linux_fs_def

theorem validate_path_order_witness:
  "validate_path linux_host linux_fs ''  '' ''backup'' = ((False, EmptyPath), linux_fs)
   \<and> validate_path linux_host linux_fs ''/etc/foo'' ''backup'' = ((False, DangerousSystemPath), linux_fs)
   \<and> validate_path linux_host linux_fs ''/'' ''backup'' = ((False, RootDrive), linux_fs)
   \<and> validate_path linux_host linux_fs ''/backups'' ''backup'' = ((False, InsufficientDepth), linux_fs)
   \<and> validate_path linux_host linux_fs ''/srv/x/y'' ''runtime''
         = ((False, ParentCreateFailed PermissionError), linux_fs)
   \<and> validate_path linux_host linux_fs ''notes.txt'' ''source'' = ((False, TargetIsFile), linux_fs)
   \<and> validate_path linux_host linux_fs ''/home/user/proj'' ''backup'' = ((True, Ok), linux_fs)"
proof (intro conjI)
  have "strip ''  '' = []" by (simp add: eval_defs)
  with validate_path_order [of "''  ''" linux_host linux_fs "''backup''"]
  show "validate_path linux_host linux_fs ''  '' ''backup'' = ((False, EmptyPath), linux_fs)"
    by simp
next
  have "strip ''/etc/foo'' \<noteq> [] \<and> is_system_path linux_host (strip ''/etc/foo'') = Inr True"
    by (simp add: eval_defs)
  with validate_path_order [of "''/etc/foo''" linux_host linux_fs "''backup''"]
  show "validate_path linux_host linux_fs ''/etc/foo'' ''backup''
          = ((False, DangerousSystemPath), linux_fs)"
    by simp
next
  have "system linux_host \<noteq> ''windows''" by (simp add: linux_host_def)
  with validate_path_order [of "[]" linux_host linux_fs "''backup''"]
  show "validate_path linux_host linux_fs ''/'' ''backup'' = ((False, RootDrive), linux_fs)"
    by simp
next
  have "strip ''/backups'' \<noteq> [] \<and> is_system_path linux_host (strip ''/backups'') = Inr False
        \<and> \<not> is_root_drive linux_host (strip ''/backups'')
        \<and> \<not> has_sufficient_depth linux_host (strip ''/backups'') 3"
    by (simp add: eval_defs)
  with validate_path_order [of "''/backups''" linux_host linux_fs "''backup''"]
  show "validate_path linux_host linux_fs ''/backups'' ''backup''
          = ((False, InsufficientDepth), linux_fs)"
    by simp
next
  have "strip ''/srv/x/y'' \<noteq> [] \<and> is_system_path linux_host (strip ''/srv/x/y'') = Inr False
        \<and> \<not> is_root_drive linux_host (strip ''/srv/x/y'')
        \<and> ensure_parent linux_host linux_fs (strip ''/srv/x/y'') = (Some PermissionError, linux_fs)"
    by (simp add: eval_defs)
  with validate_path_order [of "''/srv/x/y''" linux_host linux_fs "''runtime''" PermissionError linux_fs]
  show "validate_path linux_host linux_fs ''/srv/x/y'' ''runtime''
         = ((False, ParentCreateFailed PermissionError), linux_fs)"
    by simp
next
  have "strip ''notes.txt'' \<noteq> [] \<and> is_system_path linux_host (strip ''notes.txt'') = Inr False
        \<and> \<not> is_root_drive linux_host (strip ''notes.txt'')
        \<and> ensure_parent linux_host linux_fs (strip ''notes.txt'') = (None, linux_fs)
        \<and> os_path_exists linux_host linux_fs (strip ''notes.txt'')
        \<and> os_path_isfile linux_host linux_fs (strip ''notes.txt'')"
    by (simp add: eval_defs)
  with validate_path_order [of "''notes.txt''" linux_host linux_fs "''source''" _ linux_fs]
  show "validate_path linux_host linux_fs ''notes.txt'' ''source'' = ((False, TargetIsFile), linux_fs)"
    by simp
next
  have "strip ''/home/user/proj'' \<noteq> [] \<and> is_system_path linux_host (strip ''/home/user/proj'') = Inr False
        \<and> \<not> is_root_drive linux_host (strip ''/home/user/proj'')
        \<and> has_sufficient_depth linux_host (strip ''/home/user/proj'') 3
        \<and> ensure_parent linux_host linux_fs (strip ''/home/user/proj'') = (None, linux_fs)
        \<and> \<not> os_path_exists linux_host linux_fs (strip ''/home/user/proj'')"
    by (simp add: eval_defs)
  with validate_path_order [of "''/home/user/proj''" linux_host linux_fs "''backup''" _ linux_fs]
  show "validate_path linux_host linux_fs ''/home/user/proj'' ''backup'' = ((True, Ok), linux_fs)"
    by simp
qed

lemma validate_depth_iff:
  "snd (fst (validate_path h fs path t)) = InsufficientDepth \<longleftrightarrow>
     t = ''backup'' \<and> strip path \<noteq> [] \<and> is_system_path h (strip path) = Inr False
     \<and> \<not> is_root_drive h (strip path)
     \<and> (\<exists>r. resolve h (strip path) = Some r \<and> length (path_parts r) < 3)"
proof (cases "strip path = []")
  case True
  then show ?thesis by (simp add: validate_empty)
next
  case False
  have "is_system_path h (strip path) = Inr False \<Longrightarrow> \<exists>r. resolve h (strip path) = Some r"
    by (auto simp: is_system_path_def False split: option.splits)
  with False show ?thesis
    by (auto simp: validate_nonblank [OF False] has_sufficient_depth_def
        split: sum.splits bool.splits prod.splits option.splits)
qed

lemma strip_home_user_a: "strip ''/home/user/a'' = ''/home/user/a''"
  by (simp add: strip_def is_space_def)

lemma resolve_home_user_a: "resolve h ''/home/user/a'' = Some ''/home/user/a''"
  by (simp add: resolve_def abs_key_def startswith_def norm_step_def join_with_def)

lemma depth_home_user_a: "has_sufficient_depth h ''/home/user/a'' 3"
  by (simp add: has_sufficient_depth_def resolve_home_user_a path_parts_def path_root_def
      path_tail_def startswith_def)

lemma home_user_a_any_role:
  "validate_path h fs ''/home/user/a'' t = validate_path h fs ''/home/user/a'' ''source''"
  by (simp add: validate_nonblank strip_home_user_a depth_home_user_a)

lemma home_user_a_depth_ok:
  "snd (fst (validate_path h fs ''/home/user/a'' t)) \<noteq> InsufficientDepth"
  by (simp add: validate_depth_iff strip_home_user_a resolve_home_user_a path_parts_def
      path_root_def path_tail_def startswith_def)

lemma strip_backups: "strip ''/backups'' = ''/backups''"
  by (simp add: strip_def is_space_def)

lemma resolve_backups: "resolve h ''/backups'' = Some ''/backups''"
  by (simp add: resolve_def abs_key_def startswith_def norm_step_def join_with_def)

lemma backups_linux:
  assumes "system h = ''linux''"
  shows "validate_path h fs ''/backups'' ''backup'' = ((False, InsufficientDepth), fs)"
    and "snd (fst (validate_path h fs ''/backups'' ''source'')) \<noteq> InsufficientDepth"
proof -
  have s: "is_system_path h ''/backups'' = Inr False"
    using assms
    by (simp add: is_system_path_def resolve_backups dangerous_list_def dangerous_paths_def
        startswith_def lower_def lower_char_def replace_backslash_def backslash_def)
  have r: "\<not> is_root_drive h ''/backups''"
    using assms by (simp add: is_root_drive_def resolve_backups)
  have d: "\<not> has_sufficient_depth h ''/backups'' 3"
    by (simp add: has_sufficient_depth_def resolve_backups path_parts_def path_root_def
      path_tail_def startswith_def)
  show "validate_path h fs ''/backups'' ''backup'' = ((False, InsufficientDepth), fs)"
    by (simp add: validate_nonblank strip_backups s r d)
  show "snd (fst (validate_path h fs ''/backups'' ''source'')) \<noteq> InsufficientDepth"
    by (simp add: validate_depth_iff)
qed

text \<open>
  Claim C4, as stated, fails: \<^verbatim>\<open>/home/user/a\<close> resolves to four components, the root
  being one of them, so the backup role accepts it.
\<close>

theorem validate_path_depth_counterexample:
  "fst (validate_path linux_host linux_fs ''/home/user/a'' ''backup'') = (True, Ok)
   \<and> fst (validate_path linux_host linux_fs ''/home/user/a'' ''backup'') \<noteq> (False, InsufficientDepth)"
proof -
  have "fst (validate_path linux_host linux_fs ''/home/user/a'' ''backup'') = (True, Ok)"
    by (simp add: validate_path_def eval_defs)
  then show ?thesis by simp
qed

text \<open>
  Claim C4, amended. The depth rule applies to the backup role only and asks for at
  least three components of the resolved path, the root counting as one:
  \<^const>\<open>InsufficientDepth\<close> is the verdict exactly for the backup role, on a path that
  passed the earlier checks and resolves to fewer than three components. So
  \<^verbatim>\<open>/home/user/a\<close> passes the rule and has the same verdict for the backup role as for
  the source role, \<^const>\<open>Ok\<close> on the example host, while on a Linux host
  \<^verbatim>\<open>/backups\<close> is refused for the backup role and not for the source role.
\<close>

theorem validate_path_depth:
  "(snd (fst (validate_path h fs path t)) = InsufficientDepth \<longleftrightarrow>
      t = ''backup'' \<and> strip path \<noteq> [] \<and> is_system_path h (strip path) = Inr False
      \<and> \<not> is_root_drive h (strip path)
      \<and> (\<exists>r. resolve h (strip path) = Some r \<and> length (path_parts r) < 3))
   \<and> validate_path h fs ''/home/user/a'' ''backup'' = validate_path h fs ''/home/user/a'' ''source''
   \<and> snd (fst (validate_path h fs ''/home/user/a'' ''backup'')) \<noteq> InsufficientDepth
   \<and> fst (validate_path linux_host linux_fs ''/home/user/a'' ''source'') = (True, Ok)
   \<and> (system h = ''linux'' \<longrightarrow>
         validate_path h fs ''/backups'' ''backup'' = ((False, InsufficientDepth), fs)
         \<and> snd (fst (validate_path h fs ''/backups'' ''source'')) \<noteq> InsufficientDepth)"
proof (intro conjI impI)
  show "fst (validate_path linux_host linux_fs ''/home/user/a'' ''source'') = (True, Ok)"
    by (simp add: validate_path_def eval_defs)
  show "validate_path h fs ''/home/user/a'' ''backup'' = validate_path h fs ''/home/user/a'' ''source''"
    by (rule home_user_a_any_role)
  show "snd (fst (validate_path h fs ''/home/user/a'' ''backup'')) \<noteq> InsufficientDepth"
    by (rule home_user_a_depth_ok)
  show "(snd (fst (validate_path h fs path t)) = InsufficientDepth) =
      (t = ''backup'' \<and> strip path \<noteq> [] \<and> is_system_path h (strip path) = Inr False
      \<and> \<not> is_root_drive h (strip path)
      \<and> (\<exists>r. resolve h (strip path) = Some r \<and> length (path_parts r) < 3))"
    by (rule validate_depth_iff)
next
  assume "system h = ''linux''"
  then show "validate_path h fs ''/backups'' ''backup'' = ((False, InsufficientDepth), fs)"
    by (rule backups_linux)
next
  assume "system h = ''linux''"
  then show "snd (fst (validate_path h fs ''/backups'' ''source'')) \<noteq> InsufficientDepth"
    by (rule backups_linux)
qed

theorem validate_path_depth_witness:
  "system linux_host = ''linux''
   \<and> validate_path linux_host linux_fs ''/backups'' ''backup'' = ((False, InsufficientDepth), linux_fs)
   \<and> snd (fst (validate_path linux_host linux_fs ''/backups'' ''source'')) \<noteq> InsufficientDepth"
proof -
  have l: "system linux_host = ''linux''" by (simp add: linux_host_def)
  with validate_path_depth [of linux_host linux_fs "''/backups''" "''backup''"]
  show ?thesis by simp
qed

end
